theory Spec2Isabelle
  imports Main "HOL-Library.Word"
begin

section \<open>The folder store of lumail (\<^verbatim>\<open>src/maildir.cc\<close>)\<close>

subsection \<open>Data model\<close>

text \<open>
  \<^verbatim>\<open>time_t\<close> is the signed 64-bit integer of x86-64 Linux and \<^verbatim>\<open>int\<close> is 32 bits wide.
  Both are words; the signed reading is \<open>sint\<close>, and \<open>+\<close> wraps around.
\<close>

type_synonym time_t = "64 word"
type_synonym c_int = "32 word"

text \<open>A message handle carries only the path it was built from.\<close>

datatype CMessage = CMessage (cmessage_path: string)

text \<open>The members of \<^verbatim>\<open>class CMaildir\<close>.\<close>

record maildir =
  m_path :: string
  m_imap :: bool
  m_modified :: time_t
  m_unread :: c_int
  m_total :: c_int

text \<open>
  The collaborators the class calls, as functions of their arguments:
  \<^verbatim>\<open>stat\<close> (\<open>None\<close> when it fails, otherwise \<^verbatim>\<open>st_mtime\<close>),
  \<^verbatim>\<open>CDirectory::entries\<close>, \<^verbatim>\<open>CFile::is_directory\<close>, \<^verbatim>\<open>CFile::is_maildir\<close>,
  \<^verbatim>\<open>CFile::exists\<close>, \<^verbatim>\<open>CFile::copy\<close>, \<^verbatim>\<open>CMessage::is_new\<close>, \<^verbatim>\<open>gethostname\<close>,
  \<^verbatim>\<open>time\<close>, \<^verbatim>\<open>rand\<close> and \<^verbatim>\<open>CIMAPProxy::read_imap_output\<close>.
  The filename loop calls \<^verbatim>\<open>time\<close>, \<^verbatim>\<open>rand\<close> and \<^verbatim>\<open>CFile::exists\<close>
  once per iteration; these three are indexed by the iteration number, so that
  each round sees its own clock value, its own random draw and the directory
  as it is in that round.
\<close>

record world =
  stat_mtime :: "string \<Rightarrow> time_t option"
  dir_entries :: "string \<Rightarrow> string list"
  file_is_directory :: "string \<Rightarrow> bool"
  file_is_maildir :: "string \<Rightarrow> bool"
  file_exists :: "nat \<Rightarrow> string \<Rightarrow> bool"
  file_copy :: "string \<Rightarrow> string \<Rightarrow> bool"
  message_is_new :: "CMessage \<Rightarrow> bool"
  gethostname :: string
  time_now :: "nat \<Rightarrow> time_t"
  rand :: "nat \<Rightarrow> nat"
  read_imap_output :: "string \<Rightarrow> string"

text \<open>
  The calls on the outside world that an operation makes, in order:
  \<^verbatim>\<open>stat\<close> probes, directory listings, commands sent to the proxy, file copies.
\<close>

datatype event =
    Stat string
  | Entries string
  | ReadImapOutput string
  | Copy string string

subsection \<open>Construction and identity\<close>

text \<open>
  The constructor assigns \<^verbatim>\<open>m_path\<close>, \<^verbatim>\<open>m_imap\<close> and \<^verbatim>\<open>m_modified\<close> only.
  What \<^verbatim>\<open>m_unread\<close> and \<^verbatim>\<open>m_total\<close> hold afterwards is whatever their
  declaration in \<^verbatim>\<open>maildir.h\<close> leaves there; the two values are parameters.
\<close>

definition CMaildir :: "string \<Rightarrow> bool \<Rightarrow> c_int \<Rightarrow> c_int \<Rightarrow> maildir" where
  "CMaildir name is_local unread0 total0 =
     \<lparr> m_path = name,
       m_imap = (if is_local then False else True),
       m_modified = - 1,
       m_unread = unread0,
       m_total = total0 \<rparr>"

definition path :: "maildir \<Rightarrow> string" where
  "path s = m_path s"

definition is_maildir :: "maildir \<Rightarrow> bool" where
  "is_maildir s = (\<not> m_imap s)"

definition is_imap :: "maildir \<Rightarrow> bool" where
  "is_imap s = m_imap s"

subsection \<open>Modification time\<close>

text \<open>The loop over the two directories of \<^verbatim>\<open>last_modified\<close>; \<open>latest\<close> is the local \<^verbatim>\<open>last\<close>.\<close>

fun stat_dirs :: "world \<Rightarrow> string list \<Rightarrow> time_t \<Rightarrow> event list \<times> time_t" where
  "stat_dirs w [] latest = ([], latest)"
| "stat_dirs w (dir # dirs) latest =
     (let latest' = (case stat_mtime w dir of
                       None \<Rightarrow> latest
                     | Some st_mtime \<Rightarrow>
                         if sint st_mtime > sint latest then st_mtime else latest);
          (ev, r) = stat_dirs w dirs latest'
      in (Stat dir # ev, r))"

definition last_modified :: "world \<Rightarrow> maildir \<Rightarrow> event list \<times> time_t" where
  "last_modified w s =
     (if m_imap s then ([], m_modified s)
      else
        let p = path s;
            dirs = [p @ ''/cur'', p @ ''/new'']
        in stat_dirs w dirs 0)"

subsection \<open>Enumeration\<close>

text \<open>The inner loop of \<^verbatim>\<open>getMessages\<close>, over the entries of one directory.\<close>

fun add_files :: "world \<Rightarrow> string list \<Rightarrow> CMessage list \<Rightarrow> CMessage list" where
  "add_files w [] result = result"
| "add_files w (file # files) result =
     add_files w files
       (if \<not> file_is_directory w file then result @ [CMessage file] else result)"

text \<open>The outer loop, over the directories.\<close>

fun scan_dirs :: "world \<Rightarrow> string list \<Rightarrow> event list \<times> CMessage list
                    \<Rightarrow> event list \<times> CMessage list" where
  "scan_dirs w [] acc = acc"
| "scan_dirs w (p # ps) acc =
     scan_dirs w ps (fst acc @ [Entries p], add_files w (dir_entries w p) (snd acc))"

definition getMessages :: "world \<Rightarrow> maildir \<Rightarrow> event list \<times> CMessage list" where
  "getMessages w s =
     (let dirs = [m_path s @ ''/cur/'', m_path s @ ''/new/'']
      in scan_dirs w dirs ([], []))"

subsection \<open>The cache\<close>

text \<open>The counting loop of \<^verbatim>\<open>update_cache\<close>.\<close>

fun count_unread :: "world \<Rightarrow> CMessage list \<Rightarrow> maildir \<Rightarrow> maildir" where
  "count_unread w [] s = s"
| "count_unread w (message # rest) s =
     count_unread w rest
       (if message_is_new w message then s\<lparr>m_unread := m_unread s + 1\<rparr> else s)"

definition update_cache :: "world \<Rightarrow> maildir \<Rightarrow> event list \<times> maildir" where
  "update_cache w s =
     (if m_imap s then ([], s)
      else
        let (ev1, last_mod) = last_modified w s
        in if last_mod = m_modified s then (ev1, s)
           else
             let s1 = s\<lparr>m_modified := last_mod\<rparr>;
                 (ev2, all) = getMessages w s1;
                 s2 = s1\<lparr>m_total := of_nat (length all)\<rparr>;
                 s3 = s2\<lparr>m_unread := 0\<rparr>
             in (ev1 @ ev2, count_unread w all s3))"

definition unread_messages :: "world \<Rightarrow> maildir \<Rightarrow> event list \<times> maildir \<times> c_int" where
  "unread_messages w s = (let (ev, s') = update_cache w s in (ev, s', m_unread s'))"

definition total_messages :: "world \<Rightarrow> maildir \<Rightarrow> event list \<times> maildir \<times> c_int" where
  "total_messages w s = (let (ev, s') = update_cache w s in (ev, s', m_total s'))"

definition bump_mtime :: "maildir \<Rightarrow> maildir" where
  "bump_mtime s = s\<lparr>m_modified := m_modified s + 1\<rparr>"

subsection \<open>Filename generation\<close>

text \<open>What \<^verbatim>\<open>operator<<\<close> writes for an integer: its decimal digits.\<close>

fun dec_nat :: "nat \<Rightarrow> string" where
  "dec_nat n =
     (if n < 10 then [''0123456789'' ! n]
      else dec_nat (n div 10) @ [''0123456789'' ! (n mod 10)])"

declare dec_nat.simps [simp del]

definition dec_int :: "int \<Rightarrow> string" where
  "dec_int i = (if i < 0 then ''-'' @ dec_nat (nat (- i)) else dec_nat (nat i))"

text \<open>
  One round of the loop body of \<^verbatim>\<open>generate_filename\<close>, up to the existence test.
  The stream \<^verbatim>\<open>ss\<close> already holds the seconds when the random number is written
  to it, and \<^verbatim>\<open>ss.str()\<close> is its whole contents.
\<close>

definition make_file :: "world \<Rightarrow> bool \<Rightarrow> nat \<Rightarrow> string" where
  "make_file w is_new i =
     (let current_time = time_now w i;
          ss = dec_int (sint current_time);
          since_epoch = ss;
          file = since_epoch;
          file = file @ ''.'';
          file = file @ gethostname w;
          r = rand w i mod 1000;
          ss = ss @ dec_nat r;
          file = file @ ss;
          file = file @ '':2'';
          file = (if is_new then file @ '',N'' else file @ '',S'')
      in file)"

text \<open>The loop \<^verbatim>\<open>while (true)\<close>; it ends only through its \<^verbatim>\<open>return\<close>.\<close>

partial_function (option) unique_loop :: "world \<Rightarrow> string \<Rightarrow> bool \<Rightarrow> nat \<Rightarrow> string option" where
  "unique_loop w p is_new i =
     (if \<not> file_exists w i (p @ make_file w is_new i)
      then Some (p @ make_file w is_new i)
      else unique_loop w p is_new (Suc i))"

definition generate_filename :: "world \<Rightarrow> maildir \<Rightarrow> bool \<Rightarrow> string option" where
  "generate_filename w s is_new =
     (let tmp = path s;
          p = tmp
      in if \<not> file_is_maildir w p then Some ''''
         else
           let p = (if is_new then p @ ''/new/'' else p @ ''/cur/'')
           in unique_loop w p is_new 0)"

subsection \<open>Saving a message\<close>

definition saveMessage :: "world \<Rightarrow> maildir \<Rightarrow> CMessage \<Rightarrow> (event list \<times> maildir \<times> bool) option" where
  "saveMessage w s msg =
     (if m_imap s \<or> (m_path s \<noteq> [] \<and> m_path s ! 0 \<noteq> CHR ''/'') then
        let msg_path = cmessage_path msg;
            folder = m_path s;
            cmd = ''save_message '' @ msg_path @ '' '' @ folder @ [CHR 0x0A];
            out = read_imap_output w cmd
        in Some ([ReadImapOutput cmd], s, True)
      else
        case generate_filename w s False of
          None \<Rightarrow> None
        | Some p \<Rightarrow> Some ([Copy (cmessage_path msg) p], s, file_copy w (cmessage_path msg) p))"

subsection \<open>Reading traces and results\<close>

text \<open>The directories listed in a trace, and the commands sent to the proxy.\<close>

fun listings :: "event list \<Rightarrow> string list" where
  "listings [] = []"
| "listings (Entries p # ev) = p # listings ev"
| "listings (e # ev) = listings ev"

fun proxy_commands :: "event list \<Rightarrow> string list" where
  "proxy_commands [] = []"
| "proxy_commands (ReadImapOutput c # ev) = c # proxy_commands ev"
| "proxy_commands (e # ev) = proxy_commands ev"

text \<open>The commands a call of \<^verbatim>\<open>saveMessage\<close> sent; none when it does not return.\<close>

definition sent_to_proxy :: "(event list \<times> maildir \<times> bool) option \<Rightarrow> string list" where
  "sent_to_proxy r = (case r of None \<Rightarrow> [] | Some x \<Rightarrow> proxy_commands (fst x))"

text \<open>
  The routing test of \<^verbatim>\<open>saveMessage\<close> in the words of the specification:
  the folder is remote, or its path is non-empty and does not begin with a slash.
\<close>

definition treated_as_remote :: "maildir \<Rightarrow> bool" where
  "treated_as_remote s = (m_imap s \<or> (m_path s \<noteq> [] \<and> hd (m_path s) \<noteq> CHR ''/''))"

text \<open>
  The larger of two timestamps in the signed order, and what a directory
  contributes to the modification time in the words of the specification:
  its \<^verbatim>\<open>st_mtime\<close>, or 0 when \<^verbatim>\<open>stat\<close> fails.
\<close>

definition later :: "time_t \<Rightarrow> time_t \<Rightarrow> time_t" where
  "later a b = (if sint a < sint b then b else a)"

definition mtime_or_zero :: "world \<Rightarrow> string \<Rightarrow> time_t" where
  "mtime_or_zero w dir = (case stat_mtime w dir of None \<Rightarrow> 0 | Some t \<Rightarrow> t)"

subsection \<open>Sequences of calls\<close>

text \<open>
  The public operations of the class, each with the world it runs in.
  \<open>exec\<close> gives the folder after the call, \<open>None\<close> when the call does not return.
\<close>

datatype call =
    Path
  | IsMaildir
  | IsImap
  | UnreadMessages world
  | TotalMessages world
  | UpdateCache world
  | LastModified world
  | GetMessages world
  | SaveMessage world CMessage
  | GenerateFilename world bool
  | BumpMtime

fun exec :: "call \<Rightarrow> maildir \<Rightarrow> maildir option" where
  "exec Path s = Some s"
| "exec IsMaildir s = Some s"
| "exec IsImap s = Some s"
| "exec (UnreadMessages w) s = Some (fst (snd (unread_messages w s)))"
| "exec (TotalMessages w) s = Some (fst (snd (total_messages w s)))"
| "exec (UpdateCache w) s = Some (snd (update_cache w s))"
| "exec (LastModified w) s = Some s"
| "exec (GetMessages w) s = Some s"
| "exec (SaveMessage w msg) s = map_option (\<lambda>r. fst (snd r)) (saveMessage w s msg)"
| "exec (GenerateFilename w is_new) s = map_option (\<lambda>r. s) (generate_filename w s is_new)"
| "exec BumpMtime s = Some (bump_mtime s)"

fun run :: "call list \<Rightarrow> maildir \<Rightarrow> maildir option" where
  "run [] s = Some s"
| "run (c # cs) s = (case exec c s of None \<Rightarrow> None | Some s' \<Rightarrow> run cs s')"

subsection \<open>Two concrete worlds\<close>

text \<open>
  A maildir \<^verbatim>\<open>/m\<close> with one read and two unread messages on a host named
  \<^verbatim>\<open>box\<close>; the first generated filename is taken, the second is free.
\<close>

definition demo_world :: world where
  "demo_world =
     \<lparr> stat_mtime = (\<lambda>p. if p = ''/m/cur'' then Some 100
                          else if p = ''/m/new'' then Some 200 else None),
       dir_entries = (\<lambda>p. if p = ''/m/cur/'' then [''/m/cur/.'', ''/m/cur/..'', ''/m/cur/a'']
                           else if p = ''/m/new/''
                           then [''/m/new/.'', ''/m/new/..'', ''/m/new/b'', ''/m/new/c'']
                           else []),
       file_is_directory =
         (\<lambda>f. f \<in> set [''/m/cur/.'', ''/m/cur/..'', ''/m/new/.'', ''/m/new/..'']),
       file_is_maildir = (\<lambda>p. p = ''/m''),
       file_exists = (\<lambda>i p. i = 0),
       file_copy = (\<lambda>src dst. True),
       message_is_new = (\<lambda>m. take 7 (cmessage_path m) = ''/m/new/''),
       gethostname = ''box'',
       time_now = (\<lambda>i. 1700000000 + of_nat i),
       rand = (\<lambda>i. 1042 + i),
       read_imap_output = (\<lambda>cmd. ''OK'') \<rparr>"

text \<open>The same maildir with both directories last written before 1970.\<close>

definition old_world :: world where
  "old_world =
     demo_world\<lparr> stat_mtime := (\<lambda>p. if p = ''/m/cur'' then Some (- 5)
                                     else if p = ''/m/new'' then Some (- 3) else None) \<rparr>"

section \<open>Properties\<close>

subsection \<open>Auxiliary facts\<close>

lemma add_files_eq:
  "add_files w files result =
     result @ map CMessage (filter (\<lambda>f. \<not> file_is_directory w f) files)"
  by (induction files arbitrary: result) simp_all

lemma getMessages_eq:
  "getMessages w s =
     ([Entries (m_path s @ ''/cur/''), Entries (m_path s @ ''/new/'')],
      map CMessage
        (filter (\<lambda>f. \<not> file_is_directory w f)
           (dir_entries w (m_path s @ ''/cur/'') @ dir_entries w (m_path s @ ''/new/''))))"
  by (simp add: getMessages_def add_files_eq)

lemma count_unread_eq:
  "count_unread w ms s =
     s\<lparr>m_unread := m_unread s + of_nat (length (filter (message_is_new w) ms))\<rparr>"
  by (induction ms arbitrary: s) simp_all

lemma listings_append: "listings (xs @ ys) = listings xs @ listings ys"
  by (induction xs rule: listings.induct) simp_all

lemma sint_succ:
  assumes "sint (x :: 64 word) < 2 ^ 63 - 1"
  shows "sint (x + 1) = sint x + 1"
proof -
  have lo: "- (2 ^ 63) \<le> sint x"
    using sint_ge [of x] by simp
  have "sint (x + 1) = signed_take_bit 63 (sint x + 1)"
    by (simp add: sint_word_add)
  also have "\<dots> = sint x + 1"
    using lo assms by (intro signed_take_bit_int_eq_self) simp_all
  finally show ?thesis .
qed

lemma sint_of_nat_small:
  assumes "n < 2 ^ 31"
  shows "sint (of_nat n :: 32 word) = int n"
proof -
  have "sint (of_nat n :: 32 word) = sint (word_of_int (int n) :: 32 word)"
    by simp
  also have "\<dots> = signed_take_bit 31 (int n)"
    by (simp only: sint_sbintrunc') simp
  also have "\<dots> = int n"
    using assms by (intro signed_take_bit_int_eq_self) simp_all
  finally show ?thesis .
qed

lemma saveMessage_remote:
  "treated_as_remote s \<Longrightarrow>
     saveMessage w s msg =
       Some ([ReadImapOutput
                (''save_message '' @ cmessage_path msg @ '' '' @ m_path s @ [CHR 0x0A])],
             s, True)"
  by (cases "m_path s") (auto simp: saveMessage_def treated_as_remote_def Let_def)

lemma saveMessage_local:
  "\<not> treated_as_remote s \<Longrightarrow>
     saveMessage w s msg =
       map_option (\<lambda>p. ([Copy (cmessage_path msg) p], s, file_copy w (cmessage_path msg) p))
         (generate_filename w s False)"
  by (cases "m_path s")
     (auto simp: saveMessage_def treated_as_remote_def Let_def split: option.splits)

subsection \<open>Routing of \<^verbatim>\<open>saveMessage\<close>\<close>

text \<open>
  Claim C1. \<^verbatim>\<open>saveMessage\<close> sends a command to the proxy exactly when the folder
  has the remote flag (which the constructor sets exactly when it is not told
  that the folder is local) or its path is non-empty and does not begin with
  \<^verbatim>\<open>/\<close>. In that case it sends the single line
  \<^verbatim>\<open>save_message <msgpath> <folder>\n\<close>, returns true and leaves the folder as it
  was. In particular a folder constructed local with the path \<^verbatim>\<open>myfolder\<close>
  sends exactly \<^verbatim>\<open>save_message <msgpath> myfolder\n\<close>.
\<close>

theorem saveMessage_routing:
  "((sent_to_proxy (saveMessage w s msg) \<noteq> []) =
      (m_imap s \<or> (m_path s \<noteq> [] \<and> hd (m_path s) \<noteq> CHR ''/'')))
   \<and> m_imap (CMaildir name is_local u t) = (\<not> is_local)
   \<and> (m_imap s \<or> (m_path s \<noteq> [] \<and> hd (m_path s) \<noteq> CHR ''/'') \<longrightarrow>
        saveMessage w s msg =
          Some ([ReadImapOutput
                   (''save_message '' @ cmessage_path msg @ '' '' @ m_path s @ [CHR 0x0A])],
                s, True))
   \<and> saveMessage w (CMaildir ''myfolder'' True u t) msg =
        Some ([ReadImapOutput
                 (''save_message '' @ cmessage_path msg @ '' myfolder'' @ [CHR 0x0A])],
              CMaildir ''myfolder'' True u t, True)"
proof (intro conjI impI)
  show "(sent_to_proxy (saveMessage w s msg) \<noteq> []) =
      (m_imap s \<or> (m_path s \<noteq> [] \<and> hd (m_path s) \<noteq> CHR ''/''))"
  proof (cases "treated_as_remote s")
    case True
    then show ?thesis
      by (simp add: saveMessage_remote sent_to_proxy_def) (simp add: treated_as_remote_def)
  next
    case False
    then show ?thesis
      by (simp add: saveMessage_local sent_to_proxy_def split: option.splits)
         (simp add: treated_as_remote_def)
  qed
next
  show "m_imap (CMaildir name is_local u t) = (\<not> is_local)"
    by (simp add: CMaildir_def)
next
  assume "m_imap s \<or> (m_path s \<noteq> [] \<and> hd (m_path s) \<noteq> CHR ''/'')"
  then have "treated_as_remote s"
    by (simp add: treated_as_remote_def)
  then show "saveMessage w s msg =
          Some ([ReadImapOutput
                   (''save_message '' @ cmessage_path msg @ '' '' @ m_path s @ [CHR 0x0A])],
                s, True)"
    by (rule saveMessage_remote)
next
  have "treated_as_remote (CMaildir ''myfolder'' True u t)"
    by (simp add: treated_as_remote_def CMaildir_def)
  then show "saveMessage w (CMaildir ''myfolder'' True u t) msg =
        Some ([ReadImapOutput
                 (''save_message '' @ cmessage_path msg @ '' myfolder'' @ [CHR 0x0A])],
              CMaildir ''myfolder'' True u t, True)"
    by (simp add: saveMessage_remote) (simp add: CMaildir_def)
qed

theorem saveMessage_routing_witness:
  "(m_imap (CMaildir ''INBOX.Sent'' False 0 0)
      \<or> (m_path (CMaildir ''INBOX.Sent'' False 0 0) \<noteq> []
          \<and> hd (m_path (CMaildir ''INBOX.Sent'' False 0 0)) \<noteq> CHR ''/''))
   \<and> saveMessage demo_world (CMaildir ''INBOX.Sent'' False 0 0) (CMessage ''/tmp/msg'') =
        Some ([ReadImapOutput (''save_message /tmp/msg INBOX.Sent'' @ [CHR 0x0A])],
              CMaildir ''INBOX.Sent'' False 0 0, True)"
  using saveMessage_routing
    [of demo_world "CMaildir ''INBOX.Sent'' False 0 0" "CMessage ''/tmp/msg''"]
  by (simp add: CMaildir_def)

subsection \<open>Enumeration\<close>

text \<open>
  Claim C5. \<^verbatim>\<open>getMessages\<close> lists exactly the two directories \<^verbatim>\<open>cur/\<close> and
  \<^verbatim>\<open>new/\<close> under the folder path, in this order, and returns one handle for
  each entry for which \<^verbatim>\<open>CFile::is_directory\<close> is false, in the order of the
  listings. No other test is applied and nothing is cut off: the number of
  handles is the number of such entries in the two listings together.
\<close>

theorem getMessages_all_files:
  "fst (getMessages w s) = [Entries (m_path s @ ''/cur/''), Entries (m_path s @ ''/new/'')]
   \<and> snd (getMessages w s) =
        map CMessage (filter (\<lambda>f. \<not> file_is_directory w f) (dir_entries w (m_path s @ ''/cur/'')))
        @ map CMessage (filter (\<lambda>f. \<not> file_is_directory w f) (dir_entries w (m_path s @ ''/new/'')))
   \<and> length (snd (getMessages w s)) =
        length (filter (\<lambda>f. \<not> file_is_directory w f) (dir_entries w (m_path s @ ''/cur/'')))
        + length (filter (\<lambda>f. \<not> file_is_directory w f) (dir_entries w (m_path s @ ''/new/'')))"
  by (simp add: getMessages_eq)

subsection \<open>\<^verbatim>\<open>bump_mtime\<close>\<close>

text \<open>
  Claim C9, as stated, fails: \<^verbatim>\<open>bump_mtime\<close> has no test of the remote flag,
  and a local folder is changed by it.
\<close>

theorem bump_mtime_local_counterexample:
  "\<not> m_imap (CMaildir ''/m'' True 0 0)
   \<and> bump_mtime (CMaildir ''/m'' True 0 0) \<noteq> CMaildir ''/m'' True 0 0
   \<and> m_modified (CMaildir ''/m'' True 0 0) = - 1
   \<and> m_modified (bump_mtime (CMaildir ''/m'' True 0 0)) = 0"
  by (simp add: bump_mtime_def CMaildir_def)

text \<open>
  Claim C9, amended. On every folder, remote or local, \<^verbatim>\<open>bump_mtime\<close> adds one
  to \<^verbatim>\<open>m_modified\<close> and changes no other field. The addition is that of the
  64-bit word; read as a signed number the result is one more than before
  unless \<^verbatim>\<open>m_modified\<close> was the largest value of the type.
\<close>

theorem bump_mtime_every_folder:
  "m_modified (bump_mtime s) = m_modified s + 1
   \<and> m_path (bump_mtime s) = m_path s
   \<and> m_imap (bump_mtime s) = m_imap s
   \<and> m_unread (bump_mtime s) = m_unread s
   \<and> m_total (bump_mtime s) = m_total s
   \<and> bump_mtime s \<noteq> s
   \<and> (sint (m_modified s) < 2 ^ 63 - 1 \<longrightarrow>
        sint (m_modified (bump_mtime s)) = sint (m_modified s) + 1)"
proof -
  have "m_modified (bump_mtime s) \<noteq> m_modified s"
    by (simp add: bump_mtime_def)
  then have "bump_mtime s \<noteq> s"
    by metis
  then show ?thesis
    by (simp add: bump_mtime_def sint_succ)
qed

theorem bump_mtime_every_folder_witness:
  "sint (m_modified (CMaildir ''/m'' True 0 0)) < 2 ^ 63 - 1
   \<and> sint (m_modified (bump_mtime (CMaildir ''/m'' True 0 0))) = 0
   \<and> sint (m_modified (bump_mtime (CMaildir ''INBOX'' False 0 0))) = 0"
  using bump_mtime_every_folder [of "CMaildir ''/m'' True 0 0"]
    bump_mtime_every_folder [of "CMaildir ''INBOX'' False 0 0"]
  by (simp add: CMaildir_def)

lemma sint_zero_word: "sint (x :: time_t) = 0 \<Longrightarrow> x = 0"
  by (simp add: signed_eq_0_iff)

lemma later_zero:
  assumes "0 \<le> sint a \<or> 0 \<le> sint b"
  shows "later (later 0 a) b = later a b"
proof (cases "0 \<le> sint a")
  case True
  then have "later 0 a = a"
    using sint_zero_word [of a] by (cases "sint a = 0") (simp_all add: later_def)
  then show ?thesis by simp
next
  case False
  with assms have b: "0 \<le> sint b" by simp
  from False have "later 0 a = 0"
    by (simp add: later_def)
  moreover from b have "later 0 b = b"
    using sint_zero_word [of b] by (cases "sint b = 0") (simp_all add: later_def)
  moreover from False b have "later a b = b"
    by (simp add: later_def)
  ultimately show ?thesis by simp
qed

lemma last_modified_local:
  "\<not> m_imap s \<Longrightarrow>
     last_modified w s =
       ([Stat (m_path s @ ''/cur''), Stat (m_path s @ ''/new'')],
        later (later 0 (mtime_or_zero w (m_path s @ ''/cur''))) (mtime_or_zero w (m_path s @ ''/new'')))"
  by (simp add: last_modified_def path_def later_def mtime_or_zero_def Let_def
        split: option.splits)

lemma update_cache_remote: "m_imap s \<Longrightarrow> update_cache w s = ([], s)"
  by (simp add: update_cache_def)

lemma update_cache_hit:
  "\<not> m_imap s \<Longrightarrow> snd (last_modified w s) = m_modified s \<Longrightarrow>
     update_cache w s = (fst (last_modified w s), s)"
  by (cases "last_modified w s") (simp add: update_cache_def)

lemma update_cache_miss:
  "\<not> m_imap s \<Longrightarrow> snd (last_modified w s) \<noteq> m_modified s \<Longrightarrow>
     update_cache w s =
       (fst (last_modified w s) @ fst (getMessages w s),
        s\<lparr> m_modified := snd (last_modified w s),
           m_total := of_nat (length (snd (getMessages w s))),
           m_unread := of_nat (length (filter (message_is_new w) (snd (getMessages w s)))) \<rparr>)"
  by (cases "last_modified w s") (simp add: update_cache_def count_unread_eq getMessages_eq)

subsection \<open>The modification time\<close>

text \<open>
  Claim C6, as stated, fails. The comparison starts from 0, so a directory whose
  time is negative never raises the result: with both directories last written
  before 1970 (times \<open>-5\<close> and \<open>-3\<close>) the result is 0, not the larger of the
  two, \<open>-3\<close>.
\<close>

theorem last_modified_negative_counterexample:
  "\<not> m_imap (CMaildir ''/m'' True 0 0)
   \<and> stat_mtime old_world (m_path (CMaildir ''/m'' True 0 0) @ ''/cur'') = Some (- 5)
   \<and> stat_mtime old_world (m_path (CMaildir ''/m'' True 0 0) @ ''/new'') = Some (- 3)
   \<and> later (- 5) (- 3) = - 3
   \<and> snd (last_modified old_world (CMaildir ''/m'' True 0 0)) = 0"
  by (simp add: last_modified_def path_def CMaildir_def old_world_def demo_world_def later_def)

text \<open>
  Claim C6, amended. For a remote folder \<^verbatim>\<open>last_modified\<close> returns
  \<^verbatim>\<open>m_modified\<close> and probes nothing. For a local folder it probes \<^verbatim>\<open>cur\<close> and
  \<^verbatim>\<open>new\<close> under the path and returns the largest of 0 and the times of the
  directories that \<^verbatim>\<open>stat\<close> succeeds on. That is the larger of the two
  contributions (0 for a failed \<^verbatim>\<open>stat\<close>) whenever at least one contribution is
  not negative, and it is 0 when neither directory can be probed.
\<close>

theorem last_modified_value:
  "(m_imap s \<longrightarrow> last_modified w s = ([], m_modified s))
   \<and> (\<not> m_imap s \<longrightarrow>
        fst (last_modified w s) = [Stat (m_path s @ ''/cur''), Stat (m_path s @ ''/new'')]
        \<and> snd (last_modified w s) =
            later (later 0 (mtime_or_zero w (m_path s @ ''/cur'')))
              (mtime_or_zero w (m_path s @ ''/new''))
        \<and> (0 \<le> sint (mtime_or_zero w (m_path s @ ''/cur''))
             \<or> 0 \<le> sint (mtime_or_zero w (m_path s @ ''/new'')) \<longrightarrow>
            snd (last_modified w s) =
              later (mtime_or_zero w (m_path s @ ''/cur''))
                (mtime_or_zero w (m_path s @ ''/new'')))
        \<and> (stat_mtime w (m_path s @ ''/cur'') = None
             \<and> stat_mtime w (m_path s @ ''/new'') = None \<longrightarrow>
            snd (last_modified w s) = 0))"
proof (intro conjI impI)
  assume "m_imap s"
  then show "last_modified w s = ([], m_modified s)"
    by (simp add: last_modified_def)
next
  assume "\<not> m_imap s"
  then show "fst (last_modified w s) = [Stat (m_path s @ ''/cur''), Stat (m_path s @ ''/new'')]"
    by (simp add: last_modified_local)
next
  assume "\<not> m_imap s"
  then show "snd (last_modified w s) =
            later (later 0 (mtime_or_zero w (m_path s @ ''/cur'')))
              (mtime_or_zero w (m_path s @ ''/new''))"
    by (simp add: last_modified_local)
next
  assume "\<not> m_imap s"
    and "0 \<le> sint (mtime_or_zero w (m_path s @ ''/cur''))
             \<or> 0 \<le> sint (mtime_or_zero w (m_path s @ ''/new''))"
  then show "snd (last_modified w s) =
              later (mtime_or_zero w (m_path s @ ''/cur''))
                (mtime_or_zero w (m_path s @ ''/new''))"
    by (simp add: last_modified_local later_zero)
next
  assume "\<not> m_imap s"
    and "stat_mtime w (m_path s @ ''/cur'') = None
             \<and> stat_mtime w (m_path s @ ''/new'') = None"
  then show "snd (last_modified w s) = 0"
    by (simp add: last_modified_local mtime_or_zero_def later_def)
qed

theorem last_modified_value_witness:
  "m_imap (CMaildir ''INBOX'' False 0 0)
   \<and> last_modified demo_world (CMaildir ''INBOX'' False 0 0) = ([], - 1)
   \<and> \<not> m_imap (CMaildir ''/m'' True 0 0)
   \<and> 0 \<le> sint (mtime_or_zero demo_world (m_path (CMaildir ''/m'' True 0 0) @ ''/cur''))
   \<and> snd (last_modified demo_world (CMaildir ''/m'' True 0 0)) = 200
   \<and> snd (last_modified old_world (CMaildir ''/m'' True 0 0)) = 0
   \<and> stat_mtime demo_world (m_path (CMaildir ''/x'' True 0 0) @ ''/cur'') = None
   \<and> stat_mtime demo_world (m_path (CMaildir ''/x'' True 0 0) @ ''/new'') = None
   \<and> snd (last_modified demo_world (CMaildir ''/x'' True 0 0)) = 0"
  using last_modified_value [of "CMaildir ''INBOX'' False 0 0" demo_world]
    last_modified_value [of "CMaildir ''/m'' True 0 0" demo_world]
    last_modified_value [of "CMaildir ''/m'' True 0 0" old_world]
    last_modified_value [of "CMaildir ''/x'' True 0 0" demo_world]
  by (simp add: CMaildir_def demo_world_def old_world_def mtime_or_zero_def later_def)

lemma last_modified_no_listing: "listings (fst (last_modified w s)) = []"
  by (cases "m_imap s") (simp_all add: last_modified_local, simp add: last_modified_def)

subsection \<open>The remote save and the cache\<close>

text \<open>
  Claim C2, as stated, fails: \<^verbatim>\<open>saveMessage\<close> does not call \<^verbatim>\<open>bump_mtime\<close>.
  A remote folder that saves a message returns true and is exactly what it was,
  with \<^verbatim>\<open>m_modified\<close> still \<open>-1\<close>.
\<close>

theorem saveMessage_no_bump_counterexample:
  "saveMessage demo_world (CMaildir ''INBOX'' False 0 0) (CMessage ''/tmp/msg'') =
     Some ([ReadImapOutput (''save_message /tmp/msg INBOX'' @ [CHR 0x0A])],
           CMaildir ''INBOX'' False 0 0, True)
   \<and> m_modified (CMaildir ''INBOX'' False 0 0) = - 1"
  by (simp add: saveMessage_def CMaildir_def)

text \<open>
  Claim C2, amended. Whenever \<^verbatim>\<open>saveMessage\<close> takes the remote path it returns
  true and leaves every member of the folder as it was before the call, so
  \<^verbatim>\<open>m_modified\<close> after the save equals \<^verbatim>\<open>m_modified\<close> before it: the save does not
  call \<^verbatim>\<open>bump_mtime\<close>. A call of \<^verbatim>\<open>bump_mtime\<close> made after the save adds one
  to \<^verbatim>\<open>m_modified\<close>.
\<close>

theorem saveMessage_remote_keeps_cache:
  "treated_as_remote s \<longrightarrow>
     map_option snd (saveMessage w s msg) = Some (s, True)
     \<and> map_option (\<lambda>r. m_modified (fst (snd r))) (saveMessage w s msg) = Some (m_modified s)
     \<and> map_option (\<lambda>r. m_modified (bump_mtime (fst (snd r)))) (saveMessage w s msg) =
         Some (m_modified s + 1)"
  by (simp add: saveMessage_remote bump_mtime_def)

theorem saveMessage_remote_keeps_cache_witness:
  "treated_as_remote (CMaildir ''INBOX'' False 0 0)
   \<and> map_option (\<lambda>r. m_modified (fst (snd r)))
        (saveMessage demo_world (CMaildir ''INBOX'' False 0 0) (CMessage ''/tmp/msg'')) =
      Some (- 1)
   \<and> map_option (\<lambda>r. m_modified (bump_mtime (fst (snd r))))
        (saveMessage demo_world (CMaildir ''INBOX'' False 0 0) (CMessage ''/tmp/msg'')) =
      Some 0
   \<and> treated_as_remote (CMaildir ''myfolder'' True 0 0)
   \<and> map_option snd
        (saveMessage demo_world (CMaildir ''myfolder'' True 0 0) (CMessage ''/tmp/msg'')) =
      Some (CMaildir ''myfolder'' True 0 0, True)"
  using saveMessage_remote_keeps_cache
    [of "CMaildir ''INBOX'' False 0 0" demo_world "CMessage ''/tmp/msg''"]
    saveMessage_remote_keeps_cache
    [of "CMaildir ''myfolder'' True 0 0" demo_world "CMessage ''/tmp/msg''"]
  by (simp add: treated_as_remote_def CMaildir_def)

subsection \<open>\<^verbatim>\<open>update_cache\<close>\<close>

text \<open>
  Claim C3. For a remote folder \<^verbatim>\<open>update_cache\<close> does nothing. For a local
  folder whose \<^verbatim>\<open>last_modified\<close> equals \<^verbatim>\<open>m_modified\<close> it returns with the
  folder unchanged and lists no directory. Otherwise it stores the fresh time in
  \<^verbatim>\<open>m_modified\<close>, the size of the enumeration of \<^verbatim>\<open>getMessages\<close> in
  \<^verbatim>\<open>m_total\<close> and the number of enumerated messages that are new in
  \<^verbatim>\<open>m_unread\<close>, and leaves path and flag alone. The two counts are stored in
  an \<^verbatim>\<open>int\<close>; read as signed numbers they are the counts themselves as long
  as the enumeration has fewer than \<open>2^31\<close> messages.
\<close>

theorem update_cache_cases:
  "(m_imap s \<longrightarrow> update_cache w s = ([], s))
   \<and> (\<not> m_imap s \<and> snd (last_modified w s) = m_modified s \<longrightarrow>
        snd (update_cache w s) = s \<and> listings (fst (update_cache w s)) = [])
   \<and> (\<not> m_imap s \<and> snd (last_modified w s) \<noteq> m_modified s \<longrightarrow>
        m_modified (snd (update_cache w s)) = snd (last_modified w s)
        \<and> m_total (snd (update_cache w s)) = of_nat (length (snd (getMessages w s)))
        \<and> m_unread (snd (update_cache w s)) =
            of_nat (length (filter (message_is_new w) (snd (getMessages w s))))
        \<and> m_path (snd (update_cache w s)) = m_path s
        \<and> m_imap (snd (update_cache w s)) = m_imap s
        \<and> (length (snd (getMessages w s)) < 2 ^ 31 \<longrightarrow>
             sint (m_total (snd (update_cache w s))) = int (length (snd (getMessages w s)))
             \<and> sint (m_unread (snd (update_cache w s))) =
                 int (length (filter (message_is_new w) (snd (getMessages w s))))))"
proof (intro conjI impI)
  assume "m_imap s"
  then show "update_cache w s = ([], s)"
    by (rule update_cache_remote)
next
  assume hit: "\<not> m_imap s \<and> snd (last_modified w s) = m_modified s"
  then show "snd (update_cache w s) = s"
    by (simp add: update_cache_hit)
  from hit have "update_cache w s = (fst (last_modified w s), s)"
    by (simp add: update_cache_hit)
  then show "listings (fst (update_cache w s)) = []"
    by (simp add: last_modified_no_listing)
next
  assume miss: "\<not> m_imap s \<and> snd (last_modified w s) \<noteq> m_modified s"
  then show "m_modified (snd (update_cache w s)) = snd (last_modified w s)"
    and "m_total (snd (update_cache w s)) = of_nat (length (snd (getMessages w s)))"
    and "m_unread (snd (update_cache w s)) =
            of_nat (length (filter (message_is_new w) (snd (getMessages w s))))"
    and "m_path (snd (update_cache w s)) = m_path s"
    and "m_imap (snd (update_cache w s)) = m_imap s"
    by (simp_all add: update_cache_miss)
  assume small: "length (snd (getMessages w s)) < 2 ^ 31"
  have "length (filter (message_is_new w) (snd (getMessages w s)))
          \<le> length (snd (getMessages w s))"
    by (rule length_filter_le)
  with small have small': "length (filter (message_is_new w) (snd (getMessages w s))) < 2 ^ 31"
    by linarith
  from miss small show "sint (m_total (snd (update_cache w s))) =
      int (length (snd (getMessages w s)))"
    by (simp add: update_cache_miss sint_of_nat_small)
  from miss small' show "sint (m_unread (snd (update_cache w s))) =
      int (length (filter (message_is_new w) (snd (getMessages w s))))"
    by (simp add: update_cache_miss sint_of_nat_small)
qed

theorem update_cache_cases_witness:
  "m_imap (CMaildir ''INBOX'' False 7 9)
   \<and> update_cache demo_world (CMaildir ''INBOX'' False 7 9) = ([], CMaildir ''INBOX'' False 7 9)
   \<and> \<not> m_imap ((CMaildir ''/m'' True 2 3)\<lparr>m_modified := 200\<rparr>)
   \<and> snd (last_modified demo_world ((CMaildir ''/m'' True 2 3)\<lparr>m_modified := 200\<rparr>)) =
        m_modified ((CMaildir ''/m'' True 2 3)\<lparr>m_modified := 200\<rparr>)
   \<and> snd (update_cache demo_world ((CMaildir ''/m'' True 2 3)\<lparr>m_modified := 200\<rparr>)) =
        (CMaildir ''/m'' True 2 3)\<lparr>m_modified := 200\<rparr>
   \<and> \<not> m_imap (CMaildir ''/m'' True 7 9)
   \<and> snd (last_modified demo_world (CMaildir ''/m'' True 7 9)) \<noteq>
        m_modified (CMaildir ''/m'' True 7 9)
   \<and> length (snd (getMessages demo_world (CMaildir ''/m'' True 7 9))) < 2 ^ 31
   \<and> m_modified (snd (update_cache demo_world (CMaildir ''/m'' True 7 9))) = 200
   \<and> sint (m_total (snd (update_cache demo_world (CMaildir ''/m'' True 7 9)))) = 3
   \<and> sint (m_unread (snd (update_cache demo_world (CMaildir ''/m'' True 7 9)))) = 2"
proof -
  have a: "m_imap (CMaildir ''INBOX'' False 7 9)"
    by (simp add: CMaildir_def)
  have b: "\<not> m_imap ((CMaildir ''/m'' True 2 3)\<lparr>m_modified := 200\<rparr>)
      \<and> snd (last_modified demo_world ((CMaildir ''/m'' True 2 3)\<lparr>m_modified := 200\<rparr>)) =
          m_modified ((CMaildir ''/m'' True 2 3)\<lparr>m_modified := 200\<rparr>)"
    by (simp add: last_modified_def path_def CMaildir_def demo_world_def)
  have c: "\<not> m_imap (CMaildir ''/m'' True 7 9)
      \<and> snd (last_modified demo_world (CMaildir ''/m'' True 7 9)) \<noteq>
          m_modified (CMaildir ''/m'' True 7 9)"
    by (simp add: last_modified_def path_def CMaildir_def demo_world_def)
  have tot: "length (snd (getMessages demo_world (CMaildir ''/m'' True 7 9))) = 3"
    by (simp add: getMessages_eq CMaildir_def demo_world_def)
  have cnt: "length (filter (message_is_new demo_world)
      (snd (getMessages demo_world (CMaildir ''/m'' True 7 9)))) = 2"
    by (simp add: getMessages_eq CMaildir_def demo_world_def)
  have lm: "snd (last_modified demo_world (CMaildir ''/m'' True 7 9)) = 200"
    by (simp add: last_modified_def path_def CMaildir_def demo_world_def)
  have small: "length (snd (getMessages demo_world (CMaildir ''/m'' True 7 9))) < 2 ^ 31"
    by (simp add: tot)
  have miss: "m_modified (snd (update_cache demo_world (CMaildir ''/m'' True 7 9))) = 200
      \<and> sint (m_total (snd (update_cache demo_world (CMaildir ''/m'' True 7 9)))) = 3
      \<and> sint (m_unread (snd (update_cache demo_world (CMaildir ''/m'' True 7 9)))) = 2"
    using c small update_cache_cases [of "CMaildir ''/m'' True 7 9" demo_world]
    by (simp add: tot cnt lm)
  have remote: "update_cache demo_world (CMaildir ''INBOX'' False 7 9) =
      ([], CMaildir ''INBOX'' False 7 9)"
    using a update_cache_cases [of "CMaildir ''INBOX'' False 7 9" demo_world]
    by simp
  have hit: "snd (update_cache demo_world ((CMaildir ''/m'' True 2 3)\<lparr>m_modified := 200\<rparr>)) =
      (CMaildir ''/m'' True 2 3)\<lparr>m_modified := 200\<rparr>"
    using b update_cache_cases [of "(CMaildir ''/m'' True 2 3)\<lparr>m_modified := 200\<rparr>" demo_world]
    by simp
  from a b c small miss remote hit show ?thesis
    by simp
qed

subsection \<open>The count queries\<close>

text \<open>
  Claim C8. \<^verbatim>\<open>total_messages\<close> and \<^verbatim>\<open>unread_messages\<close> do what one call of
  \<^verbatim>\<open>update_cache\<close> does and return \<^verbatim>\<open>m_total\<close> and \<^verbatim>\<open>m_unread\<close> of the
  folder it leaves. Such a call lists either no directory or \<^verbatim>\<open>cur/\<close> and
  \<^verbatim>\<open>new/\<close> once each, which is one scan. For a local folder, when
  \<^verbatim>\<open>last_modified\<close> in the world of a second call is what it was in the first,
  the second call lists no directory, leaves the folder as the first call left
  it, and either query returns the cached count; a repeated query returns the
  value it returned before.
\<close>

theorem count_queries_scan_at_most_once:
  "total_messages w s =
     (fst (update_cache w s), snd (update_cache w s), m_total (snd (update_cache w s)))
   \<and> unread_messages w s =
     (fst (update_cache w s), snd (update_cache w s), m_unread (snd (update_cache w s)))
   \<and> (listings (fst (update_cache w s)) = []
       \<or> listings (fst (update_cache w s)) = [m_path s @ ''/cur/'', m_path s @ ''/new/''])
   \<and> (\<not> m_imap s
        \<and> snd (last_modified w' (snd (update_cache w s))) = snd (last_modified w s) \<longrightarrow>
          listings (fst (total_messages w' (fst (snd (total_messages w s))))) = []
        \<and> listings (fst (unread_messages w' (fst (snd (total_messages w s))))) = []
        \<and> listings (fst (total_messages w' (fst (snd (unread_messages w s))))) = []
        \<and> listings (fst (unread_messages w' (fst (snd (unread_messages w s))))) = []
        \<and> fst (snd (total_messages w' (snd (update_cache w s)))) = snd (update_cache w s)
        \<and> fst (snd (unread_messages w' (snd (update_cache w s)))) = snd (update_cache w s)
        \<and> snd (snd (total_messages w' (fst (snd (total_messages w s))))) =
            snd (snd (total_messages w s))
        \<and> snd (snd (unread_messages w' (fst (snd (unread_messages w s))))) =
            snd (snd (unread_messages w s))
        \<and> snd (snd (total_messages w' (fst (snd (unread_messages w s))))) =
            m_total (snd (update_cache w s))
        \<and> snd (snd (unread_messages w' (fst (snd (total_messages w s))))) =
            m_unread (snd (update_cache w s)))"
proof -
  have tm: "total_messages w s =
     (fst (update_cache w s), snd (update_cache w s), m_total (snd (update_cache w s)))" for w s
    by (simp add: total_messages_def split: prod.splits)
  have um: "unread_messages w s =
     (fst (update_cache w s), snd (update_cache w s), m_unread (snd (update_cache w s)))" for w s
    by (simp add: unread_messages_def split: prod.splits)
  have once: "listings (fst (update_cache w s)) = []
       \<or> listings (fst (update_cache w s)) = [m_path s @ ''/cur/'', m_path s @ ''/new/'']"
  proof (cases "m_imap s")
    case True
    then show ?thesis by (simp add: update_cache_remote)
  next
    case False
    show ?thesis
    proof (cases "snd (last_modified w s) = m_modified s")
      case True
      with False show ?thesis
        by (simp add: update_cache_hit last_modified_no_listing)
    next
      case miss: False
      with False show ?thesis
        by (simp add: update_cache_miss listings_append last_modified_no_listing getMessages_eq)
    qed
  qed
  have again: "update_cache w' (snd (update_cache w s)) =
      (fst (last_modified w' (snd (update_cache w s))), snd (update_cache w s))"
    if local: "\<not> m_imap s"
      and same: "snd (last_modified w' (snd (update_cache w s))) = snd (last_modified w s)"
  proof -
    have flag: "\<not> m_imap (snd (update_cache w s))"
      using local
      by (cases "snd (last_modified w s) = m_modified s")
         (simp_all add: update_cache_hit update_cache_miss)
    have "m_modified (snd (update_cache w s)) = snd (last_modified w s)"
      using local
      by (cases "snd (last_modified w s) = m_modified s")
         (simp_all add: update_cache_hit update_cache_miss)
    with same have "snd (last_modified w' (snd (update_cache w s))) =
        m_modified (snd (update_cache w s))"
      by simp
    with flag show ?thesis
      by (rule update_cache_hit)
  qed
  show ?thesis
    using once by (auto simp: tm um again last_modified_no_listing)
qed

theorem count_queries_scan_at_most_once_witness:
  "\<not> m_imap (CMaildir ''/m'' True 7 9)
   \<and> snd (last_modified demo_world (snd (update_cache demo_world (CMaildir ''/m'' True 7 9)))) =
        snd (last_modified demo_world (CMaildir ''/m'' True 7 9))
   \<and> listings (fst (total_messages demo_world (CMaildir ''/m'' True 7 9))) =
        [''/m/cur/'', ''/m/new/'']
   \<and> snd (snd (total_messages demo_world (CMaildir ''/m'' True 7 9))) = 3
   \<and> listings (fst (total_messages demo_world
        (fst (snd (total_messages demo_world (CMaildir ''/m'' True 7 9)))))) = []
   \<and> snd (snd (total_messages demo_world
        (fst (snd (total_messages demo_world (CMaildir ''/m'' True 7 9)))))) = 3
   \<and> snd (snd (unread_messages demo_world
        (fst (snd (total_messages demo_world (CMaildir ''/m'' True 7 9)))))) = 2"
proof -
  have local: "\<not> m_imap (CMaildir ''/m'' True 7 9)"
    by (simp add: CMaildir_def)
  have lm: "snd (last_modified demo_world (CMaildir ''/m'' True 7 9)) = 200"
    by (simp add: last_modified_def path_def CMaildir_def demo_world_def)
  have miss: "snd (last_modified demo_world (CMaildir ''/m'' True 7 9)) \<noteq>
      m_modified (CMaildir ''/m'' True 7 9)"
    by (simp add: lm) (simp add: CMaildir_def)
  have first: "update_cache demo_world (CMaildir ''/m'' True 7 9) =
      ([Stat ''/m/cur'', Stat ''/m/new'', Entries ''/m/cur/'', Entries ''/m/new/''],
       \<lparr> m_path = ''/m'', m_imap = False, m_modified = 200, m_unread = 2, m_total = 3 \<rparr>)"
    using local miss
    by (simp add: update_cache_miss lm)
       (simp add: last_modified_local getMessages_eq CMaildir_def demo_world_def)
  have same: "snd (last_modified demo_world
        (snd (update_cache demo_world (CMaildir ''/m'' True 7 9)))) =
      snd (last_modified demo_world (CMaildir ''/m'' True 7 9))"
    by (simp add: first lm) (simp add: last_modified_def path_def demo_world_def)
  note facts = count_queries_scan_at_most_once
    [of demo_world "CMaildir ''/m'' True 7 9" demo_world]
  from facts have tm: "total_messages demo_world (CMaildir ''/m'' True 7 9) =
      (fst (update_cache demo_world (CMaildir ''/m'' True 7 9)),
       snd (update_cache demo_world (CMaildir ''/m'' True 7 9)),
       m_total (snd (update_cache demo_world (CMaildir ''/m'' True 7 9))))"
    by blast
  from facts local same
  have second: "listings (fst (total_messages demo_world
        (fst (snd (total_messages demo_world (CMaildir ''/m'' True 7 9)))))) = []"
    and again: "snd (snd (total_messages demo_world
        (fst (snd (total_messages demo_world (CMaildir ''/m'' True 7 9)))))) =
        snd (snd (total_messages demo_world (CMaildir ''/m'' True 7 9)))"
    and other: "snd (snd (unread_messages demo_world
        (fst (snd (total_messages demo_world (CMaildir ''/m'' True 7 9)))))) =
        m_unread (snd (update_cache demo_world (CMaildir ''/m'' True 7 9)))"
    by blast+
  have "listings (fst (total_messages demo_world (CMaildir ''/m'' True 7 9))) =
        [''/m/cur/'', ''/m/new/'']"
    and "snd (snd (total_messages demo_world (CMaildir ''/m'' True 7 9))) = 3"
    and "m_unread (snd (update_cache demo_world (CMaildir ''/m'' True 7 9))) = 2"
    by (simp_all add: tm first)
  with local same second again other show ?thesis
    by simp
qed

subsection \<open>The counts of a remote folder\<close>

lemma exec_remote:
  assumes "m_imap s" and "exec c s = Some s'"
  shows "m_imap s' \<and> m_total s' = m_total s \<and> m_unread s' = m_unread s"
proof (cases c)
  case (UnreadMessages w)
  with assms show ?thesis
    by (simp add: unread_messages_def update_cache_remote)
next
  case (TotalMessages w)
  with assms show ?thesis
    by (simp add: total_messages_def update_cache_remote)
next
  case (UpdateCache w)
  with assms show ?thesis
    by (simp add: update_cache_remote)
next
  case (SaveMessage w msg)
  from assms(1) have "treated_as_remote s"
    by (simp add: treated_as_remote_def)
  with SaveMessage assms show ?thesis
    by (simp add: saveMessage_remote)
next
  case BumpMtime
  with assms show ?thesis
    by (auto simp: bump_mtime_def)
qed (use assms in auto)

lemma run_remote:
  "m_imap s \<Longrightarrow> run cs s = Some s' \<Longrightarrow>
     m_imap s' \<and> m_total s' = m_total s \<and> m_unread s' = m_unread s"
proof (induction cs arbitrary: s)
  case Nil
  then show ?case by simp
next
  case (Cons c cs)
  from Cons.prems(2) obtain s1 where step: "exec c s = Some s1" and rest: "run cs s1 = Some s'"
    by (auto split: option.splits)
  from exec_remote [OF Cons.prems(1) step]
  have "m_imap s1" and "m_total s1 = m_total s" and "m_unread s1 = m_unread s"
    by simp_all
  with Cons.IH [OF \<open>m_imap s1\<close> rest] show ?case
    by simp
qed

text \<open>
  Claim C10. The constructor assigns the path, the flag and \<^verbatim>\<open>m_modified\<close>
  (to \<open>-1\<close>); \<^verbatim>\<open>m_total\<close> and \<^verbatim>\<open>m_unread\<close> hold what was there before, here
  \<open>t\<close> and \<open>u\<close>. Whatever sequence of operations of the class is then called on
  a folder constructed remote, \<^verbatim>\<open>total_messages\<close> and \<^verbatim>\<open>unread_messages\<close>
  return those same \<open>t\<close> and \<open>u\<close>, list nothing and change nothing: no
  operation assigns the two counts of a remote folder.
\<close>

theorem remote_counts_never_assigned:
  "m_path (CMaildir name is_local u t) = name
   \<and> m_imap (CMaildir name is_local u t) = (\<not> is_local)
   \<and> m_modified (CMaildir name is_local u t) = - 1
   \<and> m_total (CMaildir name is_local u t) = t
   \<and> m_unread (CMaildir name is_local u t) = u
   \<and> (m_imap s \<longrightarrow> update_cache w s = ([], s))
   \<and> (run cs (CMaildir name False u t) = Some s' \<longrightarrow>
        total_messages w s' = ([], s', t) \<and> unread_messages w s' = ([], s', u))"
proof -
  have remote: "m_imap (CMaildir name False u t)"
    and fields: "m_total (CMaildir name False u t) = t" "m_unread (CMaildir name False u t) = u"
    by (simp_all add: CMaildir_def)
  have "total_messages w s' = ([], s', t) \<and> unread_messages w s' = ([], s', u)"
    if "run cs (CMaildir name False u t) = Some s'"
    using run_remote [OF remote that] fields
    by (simp add: total_messages_def unread_messages_def update_cache_remote)
  then show ?thesis
    by (simp add: CMaildir_def update_cache_remote)
qed

theorem remote_counts_never_assigned_witness:
  "m_imap (CMaildir ''INBOX'' False 7 9)
   \<and> update_cache demo_world (CMaildir ''INBOX'' False 7 9) = ([], CMaildir ''INBOX'' False 7 9)
   \<and> run [TotalMessages demo_world, SaveMessage demo_world (CMessage ''/tmp/msg''), BumpMtime,
        UpdateCache demo_world, GetMessages demo_world, UnreadMessages demo_world]
     (CMaildir ''INBOX'' False 7 9) = Some ((CMaildir ''INBOX'' False 7 9)\<lparr>m_modified := 0\<rparr>)
   \<and> total_messages demo_world ((CMaildir ''INBOX'' False 7 9)\<lparr>m_modified := 0\<rparr>) =
        ([], (CMaildir ''INBOX'' False 7 9)\<lparr>m_modified := 0\<rparr>, 9)
   \<and> unread_messages demo_world ((CMaildir ''INBOX'' False 7 9)\<lparr>m_modified := 0\<rparr>) =
        ([], (CMaildir ''INBOX'' False 7 9)\<lparr>m_modified := 0\<rparr>, 7)"
proof -
  have r: "run [TotalMessages demo_world, SaveMessage demo_world (CMessage ''/tmp/msg''),
        BumpMtime, UpdateCache demo_world, GetMessages demo_world, UnreadMessages demo_world]
     (CMaildir ''INBOX'' False 7 9) = Some ((CMaildir ''INBOX'' False 7 9)\<lparr>m_modified := 0\<rparr>)"
    by (simp add: total_messages_def unread_messages_def update_cache_def saveMessage_def
          bump_mtime_def CMaildir_def)
  with remote_counts_never_assigned
    [of "''INBOX''" False 7 9 "CMaildir ''INBOX'' False 7 9" demo_world
      "[TotalMessages demo_world, SaveMessage demo_world (CMessage ''/tmp/msg''), BumpMtime,
        UpdateCache demo_world, GetMessages demo_world, UnreadMessages demo_world]"
      "(CMaildir ''INBOX'' False 7 9)\<lparr>m_modified := 0\<rparr>"]
  show ?thesis
    by (simp add: CMaildir_def)
qed

lemma unique_loop_hit:
  "\<not> file_exists w i (p @ make_file w is_new i) \<Longrightarrow>
     unique_loop w p is_new i = Some (p @ make_file w is_new i)"
  by (subst unique_loop.simps) simp

lemma unique_loop_miss:
  "file_exists w i (p @ make_file w is_new i) \<Longrightarrow>
     unique_loop w p is_new i = unique_loop w p is_new (Suc i)"
  by (subst unique_loop.simps) simp

lemma unique_loop_first:
  "i \<le> k \<Longrightarrow> \<not> file_exists w k (p @ make_file w is_new k) \<Longrightarrow>
     (\<forall>j. i \<le> j \<and> j < k \<longrightarrow> file_exists w j (p @ make_file w is_new j)) \<Longrightarrow>
     unique_loop w p is_new i = Some (p @ make_file w is_new k)"
proof (induction "k - i" arbitrary: i)
  case 0
  then have "i = k" by simp
  with "0.prems" show ?case by (simp add: unique_loop_hit)
next
  case (Suc d)
  then have "i < k" by simp
  with Suc.prems have taken: "file_exists w i (p @ make_file w is_new i)"
    by simp
  have "unique_loop w p is_new (Suc i) = Some (p @ make_file w is_new k)"
  proof (rule Suc.hyps(1))
    show "d = k - Suc i" using Suc.hyps(2) by simp
    show "Suc i \<le> k" using \<open>i < k\<close> by simp
    show "\<not> file_exists w k (p @ make_file w is_new k)" by (rule Suc.prems(2))
    show "\<forall>j. Suc i \<le> j \<and> j < k \<longrightarrow> file_exists w j (p @ make_file w is_new j)"
      using Suc.prems(3) by simp
  qed
  with taken show ?case by (simp add: unique_loop_miss)
qed

lemma unique_loop_Some:
  assumes "unique_loop w p is_new i = Some y"
  shows "\<exists>k\<ge>i. y = p @ make_file w is_new k \<and> \<not> file_exists w k y
       \<and> (\<forall>j. i \<le> j \<and> j < k \<longrightarrow> file_exists w j (p @ make_file w is_new j))"
proof (rule unique_loop.raw_induct
    [OF _ assms,
     where P = "\<lambda>w p is_new i y. \<exists>k\<ge>i. y = p @ make_file w is_new k \<and> \<not> file_exists w k y
       \<and> (\<forall>j. i \<le> j \<and> j < k \<longrightarrow> file_exists w j (p @ make_file w is_new j))"])
  fix loop :: "world \<Rightarrow> string \<Rightarrow> bool \<Rightarrow> nat \<Rightarrow> string option"
  fix w p is_new i y
  assume IH: "\<And>w p is_new i y. loop w p is_new i = Some y \<Longrightarrow>
      \<exists>k\<ge>i. y = p @ make_file w is_new k \<and> \<not> file_exists w k y
       \<and> (\<forall>j. i \<le> j \<and> j < k \<longrightarrow> file_exists w j (p @ make_file w is_new j))"
  assume body: "(if \<not> file_exists w i (p @ make_file w is_new i)
      then Some (p @ make_file w is_new i) else loop w p is_new (Suc i)) = Some y"
  show "\<exists>k\<ge>i. y = p @ make_file w is_new k \<and> \<not> file_exists w k y
       \<and> (\<forall>j. i \<le> j \<and> j < k \<longrightarrow> file_exists w j (p @ make_file w is_new j))"
  proof (cases "file_exists w i (p @ make_file w is_new i)")
    case False
    with body have "y = p @ make_file w is_new i" by simp
    with False show ?thesis by (intro exI [of _ i]) auto
  next
    case True
    with body have "loop w p is_new (Suc i) = Some y" by simp
    from IH [OF this] obtain k where k: "Suc i \<le> k" "y = p @ make_file w is_new k"
      "\<not> file_exists w k y"
      "\<forall>j. Suc i \<le> j \<and> j < k \<longrightarrow> file_exists w j (p @ make_file w is_new j)"
      by blast
    have "\<forall>j. i \<le> j \<and> j < k \<longrightarrow> file_exists w j (p @ make_file w is_new j)"
    proof (intro allI impI)
      fix j assume "i \<le> j \<and> j < k"
      then show "file_exists w j (p @ make_file w is_new j)"
        using True k(4) by (cases "j = i") simp_all
    qed
    with k show ?thesis by (intro exI [of _ k]) simp
  qed
qed

lemma unique_loop_never:
  assumes "\<forall>j\<ge>i. file_exists w j (p @ make_file w is_new j)"
  shows "unique_loop w p is_new i = None"
proof (cases "unique_loop w p is_new i")
  case None
  then show ?thesis .
next
  case (Some y)
  from unique_loop_Some [OF this] assms show ?thesis by blast
qed

lemma generate_filename_invalid:
  "\<not> file_is_maildir w (m_path s) \<Longrightarrow> generate_filename w s is_new = Some []"
  by (simp add: generate_filename_def path_def)

lemma generate_filename_valid:
  "file_is_maildir w (m_path s) \<Longrightarrow>
     generate_filename w s is_new =
       unique_loop w (m_path s @ (if is_new then ''/new/'' else ''/cur/'')) is_new 0"
  by (simp add: generate_filename_def path_def)

lemma make_file_eq:
  "make_file w is_new i =
     dec_int (sint (time_now w i)) @ ''.'' @ gethostname w
       @ dec_int (sint (time_now w i)) @ dec_nat (rand w i mod 1000)
       @ '':2,'' @ (if is_new then ''N'' else ''S'')"
  by (simp add: make_file_def Let_def)

lemma demo_file_1: "make_file demo_world False (Suc 0) = ''1700000001.box170000000143:2,S''"
  by (simp add: make_file_eq demo_world_def dec_int_def dec_nat.simps)

subsection \<open>Filename generation\<close>

text \<open>
  Claim C7. When \<^verbatim>\<open>CFile::is_maildir\<close> rejects the folder path,
  \<^verbatim>\<open>generate_filename\<close> returns the empty string. Otherwise it makes one name
  per round, each from that round's clock value and random draw, under \<^verbatim>\<open>new/\<close>
  when \<^verbatim>\<open>is_new\<close> and under \<^verbatim>\<open>cur/\<close> otherwise, and returns the directory plus the
  name of the first round \<open>k\<close> whose path does not exist when it is tested; the
  paths of all earlier rounds existed. Every path it returns is of this kind.
  It returns as soon as there is such a round, and only when every round's
  path exists does it never return.
\<close>

theorem generate_filename_result:
  "(\<not> file_is_maildir w (m_path s) \<longrightarrow> generate_filename w s is_new = Some [])
   \<and> (file_is_maildir w (m_path s)
        \<and> \<not> file_exists w k
             (m_path s @ (if is_new then ''/new/'' else ''/cur/'') @ make_file w is_new k)
        \<and> (\<forall>j<k. file_exists w j
             (m_path s @ (if is_new then ''/new/'' else ''/cur/'') @ make_file w is_new j)) \<longrightarrow>
       generate_filename w s is_new =
         Some (m_path s @ (if is_new then ''/new/'' else ''/cur/'') @ make_file w is_new k))
   \<and> (file_is_maildir w (m_path s) \<and> generate_filename w s is_new = Some p \<longrightarrow>
       (\<exists>k. p = m_path s @ (if is_new then ''/new/'' else ''/cur/'') @ make_file w is_new k
            \<and> \<not> file_exists w k p
            \<and> (\<forall>j<k. file_exists w j
                 (m_path s @ (if is_new then ''/new/'' else ''/cur/'') @ make_file w is_new j))))
   \<and> (file_is_maildir w (m_path s)
        \<and> (\<forall>j. file_exists w j
             (m_path s @ (if is_new then ''/new/'' else ''/cur/'') @ make_file w is_new j)) \<longrightarrow>
       generate_filename w s is_new = None)"
proof (intro conjI impI)
  assume "\<not> file_is_maildir w (m_path s)"
  then show "generate_filename w s is_new = Some []"
    by (rule generate_filename_invalid)
next
  assume a: "file_is_maildir w (m_path s)
        \<and> \<not> file_exists w k
             (m_path s @ (if is_new then ''/new/'' else ''/cur/'') @ make_file w is_new k)
        \<and> (\<forall>j<k. file_exists w j
             (m_path s @ (if is_new then ''/new/'' else ''/cur/'') @ make_file w is_new j))"
  then have "unique_loop w (m_path s @ (if is_new then ''/new/'' else ''/cur/'')) is_new 0 =
      Some ((m_path s @ (if is_new then ''/new/'' else ''/cur/'')) @ make_file w is_new k)"
    by (intro unique_loop_first) simp_all
  with a show "generate_filename w s is_new =
         Some (m_path s @ (if is_new then ''/new/'' else ''/cur/'') @ make_file w is_new k)"
    by (simp add: generate_filename_valid)
next
  assume a: "file_is_maildir w (m_path s) \<and> generate_filename w s is_new = Some p"
  then have valid: "file_is_maildir w (m_path s)"
    and "generate_filename w s is_new = Some p"
    by simp_all
  then have "unique_loop w (m_path s @ (if is_new then ''/new/'' else ''/cur/'')) is_new 0 =
      Some p"
    by (simp only: generate_filename_valid [OF valid])
  from unique_loop_Some [OF this]
  show "\<exists>k. p = m_path s @ (if is_new then ''/new/'' else ''/cur/'') @ make_file w is_new k
            \<and> \<not> file_exists w k p
            \<and> (\<forall>j<k. file_exists w j
                 (m_path s @ (if is_new then ''/new/'' else ''/cur/'') @ make_file w is_new j))"
    by auto
next
  assume a: "file_is_maildir w (m_path s)
        \<and> (\<forall>j. file_exists w j
             (m_path s @ (if is_new then ''/new/'' else ''/cur/'') @ make_file w is_new j))"
  then have "unique_loop w (m_path s @ (if is_new then ''/new/'' else ''/cur/'')) is_new 0 =
      None"
    by (intro unique_loop_never) simp
  with a show "generate_filename w s is_new = None"
    by (simp add: generate_filename_valid)
qed

theorem generate_filename_result_witness:
  "\<not> file_is_maildir demo_world (m_path (CMaildir ''/x'' True 0 0))
   \<and> generate_filename demo_world (CMaildir ''/x'' True 0 0) False = Some []
   \<and> file_is_maildir demo_world (m_path (CMaildir ''/m'' True 0 0))
   \<and> file_exists demo_world 0 (''/m/cur/'' @ make_file demo_world False 0)
   \<and> \<not> file_exists demo_world 1 (''/m/cur/'' @ make_file demo_world False 1)
   \<and> generate_filename demo_world (CMaildir ''/m'' True 0 0) False =
        Some ''/m/cur/1700000001.box170000000143:2,S''
   \<and> (\<exists>k. ''/m/cur/1700000001.box170000000143:2,S'' = ''/m/cur/'' @ make_file demo_world False k
          \<and> \<not> file_exists demo_world k ''/m/cur/1700000001.box170000000143:2,S'')
   \<and> file_is_maildir (demo_world\<lparr>file_exists := \<lambda>i p. True\<rparr>)
        (m_path (CMaildir ''/m'' True 0 0))
   \<and> generate_filename (demo_world\<lparr>file_exists := \<lambda>i p. True\<rparr>)
        (CMaildir ''/m'' True 0 0) False = None"
proof -
  have ex: "file_exists demo_world j x = (j = 0)" for j x
    by (simp add: demo_world_def)
  have md: "file_is_maildir demo_world x = (x = ''/m'')" for x
    by (simp add: demo_world_def)
  have pth: "m_path (CMaildir n l u t) = n" for n l u t
    by (simp add: CMaildir_def)
  have full: "file_exists (demo_world\<lparr>file_exists := \<lambda>i p. True\<rparr>) j x" for j x
    by simp
  have md': "file_is_maildir (demo_world\<lparr>file_exists := \<lambda>i p. True\<rparr>) x = (x = ''/m'')" for x
    by (simp add: demo_world_def)
  have a: "generate_filename demo_world (CMaildir ''/x'' True 0 0) False = Some []"
    using generate_filename_result
      [where w = demo_world and s = "CMaildir ''/x'' True 0 0" and is_new = False]
    by (simp add: md pth)
  have b: "generate_filename demo_world (CMaildir ''/m'' True 0 0) False =
      Some (''/m/cur/'' @ make_file demo_world False 1)"
    using generate_filename_result
      [where w = demo_world and s = "CMaildir ''/m'' True 0 0" and is_new = False and k = 1]
    by (simp add: md pth ex)
  have d: "\<exists>k. ''/m/cur/1700000001.box170000000143:2,S'' = ''/m/cur/'' @ make_file demo_world False k
      \<and> \<not> file_exists demo_world k ''/m/cur/1700000001.box170000000143:2,S''"
    using b generate_filename_result
      [where w = demo_world and s = "CMaildir ''/m'' True 0 0" and is_new = False
        and p = "''/m/cur/1700000001.box170000000143:2,S''"]
    by (simp add: md pth demo_file_1) blast
  have c: "generate_filename (demo_world\<lparr>file_exists := \<lambda>i p. True\<rparr>)
      (CMaildir ''/m'' True 0 0) False = None"
    using generate_filename_result
      [where w = "demo_world\<lparr>file_exists := \<lambda>i p. True\<rparr>" and s = "CMaildir ''/m'' True 0 0"
        and is_new = False]
    by (simp add: md pth)
  from a b c d show ?thesis
    by (simp add: md md' pth ex demo_file_1)
qed

text \<open>
  Claim C4, as stated, fails. Read with the seconds of the round, the name of
  the host and the random draw, the template
  \<^verbatim>\<open><seconds-since-epoch>.<hostname><random-0..999>:2,<flag>\<close> gives
  \<^verbatim>\<open>1700000001.box43:2,S\<close> on host \<^verbatim>\<open>box\<close> at second 1700000001 with the draw
  43. The code returns \<^verbatim>\<open>1700000001.box170000000143:2,S\<close> under \<^verbatim>\<open>/m/cur/\<close>:
  what follows the hostname is a run of twelve digits, not a number from 0 to
  999.
\<close>

theorem generate_filename_template_counterexample:
  "generate_filename demo_world (CMaildir ''/m'' True 0 0) False =
     Some ''/m/cur/1700000001.box170000000143:2,S''
   \<and> dec_int (sint (time_now demo_world 1)) = ''1700000001''
   \<and> gethostname demo_world = ''box''
   \<and> dec_nat (rand demo_world 1 mod 1000) = ''43''
   \<and> ''1700000001.box170000000143:2,S'' \<noteq> ''1700000001'' @ ''.'' @ ''box'' @ ''43'' @ '':2,S''
   \<and> length (dec_int (sint (time_now demo_world 1)) @ dec_nat (rand demo_world 1 mod 1000)) = 12"
proof -
  have "unique_loop demo_world ''/m/cur/'' False 0 =
      Some (''/m/cur/'' @ make_file demo_world False (Suc 0))"
    by (rule unique_loop_first) (simp_all add: demo_world_def)
  then have "generate_filename demo_world (CMaildir ''/m'' True 0 0) False =
        Some ''/m/cur/1700000001.box170000000143:2,S''"
    by (simp add: generate_filename_def path_def CMaildir_def demo_file_1)
       (simp add: demo_world_def)
  moreover have "dec_int (sint (time_now demo_world 1)) = ''1700000001''"
    and "dec_nat (rand demo_world 1 mod 1000) = ''43''"
    by (simp_all add: demo_world_def dec_int_def dec_nat.simps)
  moreover have "gethostname demo_world = ''box''"
    by (simp add: demo_world_def)
  ultimately show ?thesis
    by simp
qed

text \<open>
  Claim C4, amended. Every name that \<^verbatim>\<open>generate_filename\<close> makes is
  \<^verbatim>\<open><seconds>.<hostname><seconds><random>:2,<flag>\<close>: the seconds since the epoch,
  a dot, the hostname, then one run of digits that is the same seconds again
  followed directly by the draw \<^verbatim>\<open>rand() % 1000\<close>, a number from 0 to 999, then
  \<^verbatim>\<open>:2,\<close> and the flag, \<^verbatim>\<open>N\<close> when \<^verbatim>\<open>is_new\<close> and \<^verbatim>\<open>S\<close> otherwise. This is
  the concatenated digit run of the specification's note on the template: the
  stream that formats the draw still holds the seconds. Every path returned
  for a valid maildir is such a name of some round, under \<^verbatim>\<open>new/\<close> when
  \<^verbatim>\<open>is_new\<close> and under \<^verbatim>\<open>cur/\<close> otherwise.
\<close>

theorem generate_filename_name_form:
  "make_file w is_new i =
     dec_int (sint (time_now w i)) @ ''.'' @ gethostname w
       @ dec_int (sint (time_now w i)) @ dec_nat (rand w i mod 1000)
       @ '':2,'' @ (if is_new then ''N'' else ''S'')
   \<and> rand w i mod 1000 < 1000
   \<and> (file_is_maildir w (m_path s) \<and> generate_filename w s is_new = Some p \<longrightarrow>
        (\<exists>k. p = m_path s @ (if is_new then ''/new/'' else ''/cur/'')
               @ dec_int (sint (time_now w k)) @ ''.'' @ gethostname w
               @ dec_int (sint (time_now w k)) @ dec_nat (rand w k mod 1000)
               @ '':2,'' @ (if is_new then ''N'' else ''S'')))"
proof (intro conjI impI)
  show "make_file w is_new i =
     dec_int (sint (time_now w i)) @ ''.'' @ gethostname w
       @ dec_int (sint (time_now w i)) @ dec_nat (rand w i mod 1000)
       @ '':2,'' @ (if is_new then ''N'' else ''S'')"
    by (rule make_file_eq)
  show "rand w i mod 1000 < 1000"
    by simp
next
  assume a: "file_is_maildir w (m_path s) \<and> generate_filename w s is_new = Some p"
  define d where "d = m_path s @ (if is_new then ''/new/'' else ''/cur/'')"
  from a have valid: "file_is_maildir w (m_path s)"
    and res: "generate_filename w s is_new = Some p"
    by simp_all
  have "generate_filename w s is_new = unique_loop w d is_new 0"
    unfolding d_def by (rule generate_filename_valid [OF valid])
  with res have "unique_loop w d is_new 0 = Some p"
    by simp
  from unique_loop_Some [OF this] obtain k where "p = d @ make_file w is_new k"
    by (elim exE conjE)
  then have form: "p = m_path s @ (if is_new then ''/new/'' else ''/cur/'')
               @ dec_int (sint (time_now w k)) @ ''.'' @ gethostname w
               @ dec_int (sint (time_now w k)) @ dec_nat (rand w k mod 1000)
               @ '':2,'' @ (if is_new then ''N'' else ''S'')"
    by (simp add: d_def make_file_eq)
  show "\<exists>k. p = m_path s @ (if is_new then ''/new/'' else ''/cur/'')
               @ dec_int (sint (time_now w k)) @ ''.'' @ gethostname w
               @ dec_int (sint (time_now w k)) @ dec_nat (rand w k mod 1000)
               @ '':2,'' @ (if is_new then ''N'' else ''S'')"
    by (rule exI [of _ k]) (fact form)
qed

theorem generate_filename_name_form_witness:
  "file_is_maildir demo_world (m_path (CMaildir ''/m'' True 0 0))
   \<and> generate_filename demo_world (CMaildir ''/m'' True 0 0) False =
        Some ''/m/cur/1700000001.box170000000143:2,S''
   \<and> make_file demo_world False 1 = ''1700000001.box170000000143:2,S''
   \<and> (\<exists>k. ''/m/cur/1700000001.box170000000143:2,S'' =
          ''/m/cur/'' @ dec_int (sint (time_now demo_world k)) @ ''.box''
            @ dec_int (sint (time_now demo_world k)) @ dec_nat (rand demo_world k mod 1000)
            @ '':2,S'')"
proof -
  have valid: "file_is_maildir demo_world (m_path (CMaildir ''/m'' True 0 0))"
    by (simp add: demo_world_def CMaildir_def)
  have "unique_loop demo_world ''/m/cur/'' False 0 =
      Some (''/m/cur/'' @ make_file demo_world False (Suc 0))"
    by (rule unique_loop_first) (simp_all add: demo_world_def)
  then have res: "generate_filename demo_world (CMaildir ''/m'' True 0 0) False =
        Some ''/m/cur/1700000001.box170000000143:2,S''"
    by (simp add: generate_filename_def path_def CMaildir_def demo_file_1)
       (simp add: demo_world_def)
  have host: "gethostname demo_world = ''box''"
    by (simp add: demo_world_def)
  have pth: "m_path (CMaildir ''/m'' True 0 0) = ''/m''"
    by (simp add: CMaildir_def)
  have "\<exists>k. ''/m/cur/1700000001.box170000000143:2,S'' =
          m_path (CMaildir ''/m'' True 0 0) @ (if False then ''/new/'' else ''/cur/'')
            @ dec_int (sint (time_now demo_world k)) @ ''.'' @ gethostname demo_world
            @ dec_int (sint (time_now demo_world k)) @ dec_nat (rand demo_world k mod 1000)
            @ '':2,'' @ (if False then ''N'' else ''S'')"
    by (rule generate_filename_name_form
          [where w = demo_world and s = "CMaildir ''/m'' True 0 0" and is_new = False
            and p = "''/m/cur/1700000001.box170000000143:2,S''" and i = 1,
           THEN conjunct2, THEN conjunct2, THEN mp])
       (intro conjI valid res)
  then have ex: "\<exists>k. ''/m/cur/1700000001.box170000000143:2,S'' =
          ''/m/cur/'' @ dec_int (sint (time_now demo_world k)) @ ''.box''
            @ dec_int (sint (time_now demo_world k)) @ dec_nat (rand demo_world k mod 1000)
            @ '':2,S''"
    by (simp add: host pth)
  from valid res ex show ?thesis
    by (simp add: demo_file_1)
qed

end
